theory Spec2Isabelle
  imports Complex_Main
begin

section \<open>JavaScript values used by the data access layer\<close>

text \<open>
  A JavaScript number is a finite value, NaN or one of the two infinities. Every finite
  double denotes a rational, so finite values are modelled as rationals; arithmetic on
  them is exact (the rounding of IEEE arithmetic is not modelled) and the negative zero
  is identified with zero.
\<close>

datatype jsnum = Num rat | NaN | PosInf | NegInf

text \<open>
  The scalar values a field of a parsed JSON row can hold, together with
  \<open>undefined\<close>, which is what reading a missing property gives.
\<close>

datatype jsval = JUndefined | JNull | JBool bool | JNumber jsnum | JString string

datatype js_error = StoreError string | TypeError string | SyntaxError string

text \<open>Truthiness, as tested by \<open>if (v)\<close> and by \<open>v || d\<close>.\<close>

fun truthy_num :: "jsnum \<Rightarrow> bool" where
  "truthy_num (Num r) = (r \<noteq> 0)"
| "truthy_num NaN = False"
| "truthy_num PosInf = True"
| "truthy_num NegInf = True"

definition truthy_str :: "string \<Rightarrow> bool" where
  "truthy_str s = (s \<noteq> [])"



definition num_or :: "jsnum option \<Rightarrow> jsnum \<Rightarrow> jsnum" where
  "num_or v d = (case v of None \<Rightarrow> d | Some n \<Rightarrow> if truthy_num n then n else d)"






subsection \<open>Conversion of text to a number\<close>

text \<open>
  \<open>Number(s)\<close> on a string follows the StringNumericLiteral grammar: surrounding white
  space is dropped, the empty text is 0, and the rest is a signed decimal literal
  (digits, an optional fraction, an optional exponent, or \<open>Infinity\<close>) or an unsigned
  binary, octal or hexadecimal integer literal; any other text is NaN. Strings are
  sequences of code units below 256.
\<close>

definition isWhiteSpace :: "char \<Rightarrow> bool" where
  "isWhiteSpace c = (of_char c \<in> {9, 10, 11, 12, 13, 32, 160 :: nat})"


definition digit_of :: "nat \<Rightarrow> char \<Rightarrow> nat option" where
  "digit_of base c =
     (let n = (of_char c :: nat);
          v = (if 48 \<le> n \<and> n \<le> 57 then Some (n - 48)
               else if 97 \<le> n \<and> n \<le> 102 then Some (n - 87)
               else if 65 \<le> n \<and> n \<le> 70 then Some (n - 55)
               else None)
      in case v of None \<Rightarrow> None | Some d \<Rightarrow> if d < base then Some d else None)"

definition isDigit :: "nat \<Rightarrow> char \<Rightarrow> bool" where
  "isDigit base c = (digit_of base c \<noteq> None)"

fun digits_value :: "nat \<Rightarrow> nat \<Rightarrow> string \<Rightarrow> nat" where
  "digits_value base acc [] = acc"
| "digits_value base acc (c # cs) =
     digits_value base (acc * base + (case digit_of base c of None \<Rightarrow> 0 | Some d \<Rightarrow> d)) cs"









section \<open>The data access layer\<close>

subsection \<open>Types\<close>

record QueryFilters =
  hours :: "jsnum option"
  sensor_ip :: "string option"
  sensor_name :: "string option"
  limit :: "jsnum option"

text \<open>
  The result shapes. The per-application record repeats three field names of the
  overview record; they carry the prefix \<open>app_\<close> here. Text fields are copied from the
  row without conversion, so they hold raw values.
\<close>

record ApplicationMetrics =
  applicationName :: jsval
  app_totalTransactions :: jsnum
  errorCount :: jsnum
  app_avgLatencyMs :: jsnum
  app_p95LatencyMs :: jsnum

record HealthOverviewData =
  totalTransactions :: jsnum
  errorRate :: jsnum
  avgLatencyMs :: jsnum
  p95LatencyMs :: jsnum
  uniqueClients :: jsnum
  uniqueServers :: jsnum
  applications :: "ApplicationMetrics list"

record TopTalkerData =
  clientIp :: jsval
  serverIp :: jsval
  bytes :: jsnum
  requestCount :: jsnum

record TrafficTimelinePoint =
  hour :: jsval
  requests :: jsnum
  errors :: jsnum




subsection \<open>The store client\<close>

text \<open>
  The store is outside the program. A query is sent as its text and its table of bound
  parameters (the format is always JSONEachRow); the call either fails or gives a result
  set, and reading the result set as JSON either fails or gives the rows. A time-out of
  the client is one of the failures. The client object itself, which \<open>getClient\<close>
  creates from the environment on first use, is taken as given: the query functions
  below receive it as their first argument.
\<close>

datatype pval = PNum jsnum | PStr string

type_synonym query_params = "string \<Rightarrow> pval option"








subsection \<open>Query helpers\<close>

record WhereClauseResult =
  clause :: string
  params :: query_params

fun join :: "string \<Rightarrow> string list \<Rightarrow> string" where
  "join sep [] = []"
| "join sep [x] = x"
| "join sep (x # y # ys) = x @ sep @ join sep (y # ys)"

text \<open>\<open>if (filters.sensor_ip)\<close>: the field is there and is not the empty string.\<close>

definition supplied :: "string option \<Rightarrow> bool" where
  "supplied v = (case v of None \<Rightarrow> False | Some s \<Rightarrow> truthy_str s)"

text \<open>
  \<open>buildWhereClause\<close> in two parts: the statements that fill \<open>conditions\<close> and
  \<open>params\<close>, and the \<open>return\<close>.
\<close>

definition collectConditions :: "QueryFilters \<Rightarrow> string list \<times> query_params" where
  "collectConditions filters =
     (let conditions0 = [];
          params0 = Map.empty;
          h = num_or (hours filters) (Num 24);
          params1 = params0(''filter_hours'' \<mapsto> PNum h);
          conditions1 = conditions0 @ [''timestamp >= now() - INTERVAL {filter_hours:UInt32} HOUR''];
          (conditions2, params2) =
            (case sensor_ip filters of
               None \<Rightarrow> (conditions1, params1)
             | Some ip \<Rightarrow>
                 if truthy_str ip
                 then (conditions1 @ [''sensor_ip = {filter_sensor_ip:String}''],
                       params1(''filter_sensor_ip'' \<mapsto> PStr ip))
                 else (conditions1, params1));
          (conditions3, params3) =
            (case sensor_name filters of
               None \<Rightarrow> (conditions2, params2)
             | Some name \<Rightarrow>
                 if truthy_str name
                 then (conditions2 @ [''sensor_name = {filter_sensor_name:String}''],
                       params2(''filter_sensor_name'' \<mapsto> PStr name))
                 else (conditions2, params2))
      in (conditions3, params3))"

definition buildWhereClause :: "QueryFilters \<Rightarrow> WhereClauseResult" where
  "buildWhereClause filters =
     (let (conditions, ps) = collectConditions filters
      in \<lparr> clause = (if length conditions > 0 then ''WHERE '' @ join '' AND '' conditions
                      else []),
           params = ps \<rparr>)"

subsection \<open>Query texts\<close>

definition overallQuery :: "string \<Rightarrow> string" where
  "overallQuery whereClause =
     ''\<newline>    SELECT\<newline>      count() as total_transactions,\<newline>      countIf(is_error = 1) as error_count,\<newline>      avg(response_time_ms) as avg_latency_ms,\<newline>      quantile(0.95)(response_time_ms) as p95_latency_ms,\<newline>      uniq(client_host_ip_address) as unique_clients,\<newline>      uniq(server_host_ip_address) as unique_servers\<newline>    FROM f_aggregate_telemetry\<newline>    ''
     @ whereClause @ ''\<newline>  ''"

definition appQuery :: "string \<Rightarrow> string" where
  "appQuery whereClause =
     ''\<newline>    SELECT\<newline>      application_name,\<newline>      count() as total_transactions,\<newline>      countIf(is_error = 1) as error_count,\<newline>      avg(response_time_ms) as avg_latency_ms,\<newline>      quantile(0.95)(response_time_ms) as p95_latency_ms\<newline>    FROM f_aggregate_telemetry\<newline>    ''
     @ whereClause
     @ ''\<newline>    GROUP BY application_name\<newline>    ORDER BY total_transactions DESC\<newline>    LIMIT 20\<newline>  ''"

definition topTalkersQuery :: "string \<Rightarrow> string" where
  "topTalkersQuery whereClause =
     ''\<newline>    SELECT\<newline>      client_host_ip_address as client_ip,\<newline>      server_host_ip_address as server_ip,\<newline>      sum(total_bytes) as bytes,\<newline>      count() as request_count\<newline>    FROM f_aggregate_telemetry\<newline>    ''
     @ whereClause
     @ ''\<newline>    GROUP BY client_host_ip_address, server_host_ip_address\<newline>    ORDER BY bytes DESC\<newline>    LIMIT {query_limit:UInt32}\<newline>  ''"

definition timelineQuery :: "string \<Rightarrow> string" where
  "timelineQuery whereClause =
     ''\<newline>    SELECT\<newline>      toStartOfHour(timestamp) as hour,\<newline>      count() as requests,\<newline>      countIf(is_error = 1) as errors\<newline>    FROM f_aggregate_telemetry\<newline>    ''
     @ whereClause @ ''\<newline>    GROUP BY hour\<newline>    ORDER BY hour\<newline>  ''"

subsection \<open>Query functions\<close>

text \<open>
  Each query function is written in two parts: the statements before the \<open>try\<close>, which
  build the query text and the parameter table, and the \<open>try\<close>/\<open>catch\<close>. The call to
  \<open>console.error\<close> in each \<open>catch\<close> has no effect on the value returned and is left out.
  A function returns a promise: \<open>Inr\<close> is the value it resolves to, \<open>Inl\<close> a rejection.
\<close>

definition emptyHealthOverview :: HealthOverviewData where
  "emptyHealthOverview =
     \<lparr> totalTransactions = Num 0, errorRate = Num 0, avgLatencyMs = Num 0,
       p95LatencyMs = Num 0, uniqueClients = Num 0, uniqueServers = Num 0,
       applications = [] \<rparr>"





definition healthOverviewRequest :: "QueryFilters \<Rightarrow> string \<times> string \<times> query_params" where
  "healthOverviewRequest filters =
     (let w = buildWhereClause filters;
          whereClause = clause w
      in (overallQuery whereClause, appQuery whereClause, params w))"



definition topTalkersRequest :: "QueryFilters \<Rightarrow> string \<times> query_params" where
  "topTalkersRequest filters =
     (let w = buildWhereClause filters;
          whereClause = clause w;
          lim = num_or (limit filters) (Num 10);
          queryParams = (params w)(''query_limit'' \<mapsto> PNum lim)
      in (topTalkersQuery whereClause, queryParams))"



definition timelineRequest :: "QueryFilters \<Rightarrow> string \<times> query_params" where
  "timelineRequest filters =
     (let w = buildWhereClause filters;
          whereClause = clause w
      in (timelineQuery whereClause, params w))"


section \<open>The tool surface\<close>




section \<open>The dashboard client\<close>

subsection \<open>Types\<close>

record DashboardFilters =
  df_hours :: jsnum
  df_sensor_ip :: "string option"
  df_sensor_name :: "string option"

record DashboardData =
  healthOverview :: HealthOverviewData
  topTalkers :: "TopTalkerData list"
  trafficTimeline :: "TrafficTimelinePoint list"
  filters :: DashboardFilters
  generatedAt :: string

record ToolContent =
  content_type :: string
  content_text :: string

text \<open>The detail record of one application; its field names carry the prefix \<open>d_\<close>.\<close>

record DetailOverview =
  d_applicationName :: string
  d_totalTransactions :: jsnum
  d_errorCount :: jsnum
  d_errorRate :: jsnum
  d_avgLatencyMs :: jsnum
  d_p50LatencyMs :: jsnum
  d_p95LatencyMs :: jsnum
  d_p99LatencyMs :: jsnum
  d_totalBytes :: jsnum
  d_uniqueClients :: jsnum
  d_uniqueServers :: jsnum

record TopClient =
  c_clientIp :: string
  c_transactions :: jsnum
  c_errors :: jsnum
  c_bytes :: jsnum

record TopServer =
  s_serverIp :: string
  s_serverPort :: jsnum
  s_transactions :: jsnum
  s_avgLatencyMs :: jsnum

record ApplicationDetails =
  overview :: DetailOverview
  topClients :: "TopClient list"
  topServers :: "TopServer list"
  timeline :: "TrafficTimelinePoint list"

text \<open>
  The state hooks of the component. \<open>appRef\<close> is the reference to the connected app,
  \<open>False\<close> while it is \<open>null\<close>.
\<close>

record AppState =
  data :: "DashboardData option"
  loading :: bool
  error :: "string option"
  ui_hours :: jsnum
  autoRefresh :: bool
  lastUpdated :: "string option"
  selectedApp :: "string option"
  appDetails :: "ApplicationDetails option"
  loadingDetails :: bool
  appRef :: bool

text \<open>
  What \<open>callServerTool\<close> gives: the promise is rejected, or it resolves to a result
  whose \<open>content\<close> is an array of items or is missing. \<open>JSON.parse\<close> of an item's text
  raises a SyntaxError, or gives \<open>null\<close>, or gives an object; it is a parameter of the
  handlers below.
\<close>

datatype call_outcome = Rejected js_error | Resolved "ToolContent list option"

datatype 'a parsed = ParsedNull | ParsedObject 'a

type_synonym 'a json_parse = "string \<Rightarrow> js_error + 'a parsed"

text \<open>\<open>parseInt(s, 10)\<close>: leading white space, an optional sign, the longest run of digits.\<close>

definition parseInt10 :: "string \<Rightarrow> jsnum" where
  "parseInt10 s =
     (let t = dropWhile isWhiteSpace s;
          negative = (t \<noteq> [] \<and> hd t = CHR ''-'');
          u = (if t \<noteq> [] \<and> (hd t = CHR ''-'' \<or> hd t = CHR ''+'') then tl t else t);
          ds = takeWhile (isDigit 10) u
      in if ds = [] then NaN
         else if negative then Num (- of_nat (digits_value 10 0 ds))
         else Num (of_nat (digits_value 10 0 ds)))"

subsection \<open>Handlers\<close>

text \<open>
  A handler runs up to its \<open>await\<close>, and continues when the call has an outcome; other
  handlers may run in between. So each handler is two steps: the one before the call, and
  the one that takes the outcome and the state found at that moment. The composed
  function is one run with nothing in between. Messages written to the console are left
  out.
\<close>

definition fetchInitialData_settle :: "DashboardData json_parse \<Rightarrow> call_outcome \<Rightarrow> AppState \<Rightarrow> AppState" where
  "fetchInitialData_settle parse outcome s =
     (let caught = s\<lparr> error := Some ''Failed to load dashboard data'' \<rparr>;
          s1 = (case outcome of
                  Rejected e \<Rightarrow> caught
                | Resolved None \<Rightarrow> s
                | Resolved (Some []) \<Rightarrow> s
                | Resolved (Some (c # cs)) \<Rightarrow>
                    (case parse (content_text c) of
                       Inl e \<Rightarrow> caught
                     | Inr ParsedNull \<Rightarrow> s\<lparr> data := None, error := Some ''Failed to load dashboard data'' \<rparr>
                     | Inr (ParsedObject jsonData) \<Rightarrow>
                         s\<lparr> data := Some jsonData,
                            lastUpdated := Some (generatedAt jsonData),
                            error := None \<rparr>))
      in s1\<lparr> loading := False \<rparr>)"

definition refreshData_begin :: "AppState \<Rightarrow> AppState" where
  "refreshData_begin s = s\<lparr> loading := True \<rparr>"

definition refreshData_settle :: "DashboardData json_parse \<Rightarrow> call_outcome \<Rightarrow> AppState \<Rightarrow> AppState" where
  "refreshData_settle parse outcome s =
     (let caught = s\<lparr> error := Some ''Failed to refresh data'' \<rparr>;
          s1 = (case outcome of
                  Rejected e \<Rightarrow> caught
                | Resolved None \<Rightarrow> s
                | Resolved (Some []) \<Rightarrow> s
                | Resolved (Some (c # cs)) \<Rightarrow>
                    (case parse (content_text c) of
                       Inl e \<Rightarrow> caught
                     | Inr ParsedNull \<Rightarrow> s\<lparr> data := None, error := Some ''Failed to refresh data'' \<rparr>
                     | Inr (ParsedObject jsonData) \<Rightarrow>
                         s\<lparr> data := Some jsonData,
                            lastUpdated := Some (generatedAt jsonData),
                            error := None \<rparr>))
      in s1\<lparr> loading := False \<rparr>)"

definition refreshData :: "DashboardData json_parse \<Rightarrow> call_outcome \<Rightarrow> AppState \<Rightarrow> AppState" where
  "refreshData parse outcome s =
     (if \<not> appRef s then s else refreshData_settle parse outcome (refreshData_begin s))"

definition handleHoursChange_begin :: "string \<Rightarrow> AppState \<Rightarrow> AppState" where
  "handleHoursChange_begin newHours s = s\<lparr> ui_hours := parseInt10 newHours, loading := True \<rparr>"

definition handleHoursChange_settle :: "DashboardData json_parse \<Rightarrow> call_outcome \<Rightarrow> AppState \<Rightarrow> AppState" where
  "handleHoursChange_settle parse outcome s =
     (let s1 = (case outcome of
                  Rejected e \<Rightarrow> s
                | Resolved None \<Rightarrow> s
                | Resolved (Some []) \<Rightarrow> s
                | Resolved (Some (c # cs)) \<Rightarrow>
                    (case parse (content_text c) of
                       Inl e \<Rightarrow> s
                     | Inr ParsedNull \<Rightarrow> s\<lparr> data := None \<rparr>
                     | Inr (ParsedObject jsonData) \<Rightarrow>
                         s\<lparr> data := Some jsonData,
                            lastUpdated := Some (generatedAt jsonData) \<rparr>))
      in s1\<lparr> loading := False \<rparr>)"

definition handleHoursChange :: "DashboardData json_parse \<Rightarrow> string \<Rightarrow> call_outcome \<Rightarrow> AppState \<Rightarrow> AppState" where
  "handleHoursChange parse newHours outcome s =
     (if \<not> appRef s then s
      else handleHoursChange_settle parse outcome (handleHoursChange_begin newHours s))"

definition handleAppClick_begin :: "string \<Rightarrow> AppState \<Rightarrow> AppState" where
  "handleAppClick_begin appName s =
     s\<lparr> selectedApp := Some appName, loadingDetails := True, appDetails := None \<rparr>"

definition handleAppClick_settle :: "ApplicationDetails json_parse \<Rightarrow> call_outcome \<Rightarrow> AppState \<Rightarrow> AppState" where
  "handleAppClick_settle parse outcome s =
     (let s1 = (case outcome of
                  Rejected e \<Rightarrow> s
                | Resolved None \<Rightarrow> s
                | Resolved (Some []) \<Rightarrow> s
                | Resolved (Some (c # cs)) \<Rightarrow>
                    (case parse (content_text c) of
                       Inl e \<Rightarrow> s
                     | Inr ParsedNull \<Rightarrow> s\<lparr> appDetails := None \<rparr>
                     | Inr (ParsedObject jsonData) \<Rightarrow> s\<lparr> appDetails := Some jsonData \<rparr>))
      in s1\<lparr> loadingDetails := False \<rparr>)"

definition handleAppClick :: "ApplicationDetails json_parse \<Rightarrow> string option \<Rightarrow> call_outcome \<Rightarrow> AppState \<Rightarrow> AppState" where
  "handleAppClick parse appName outcome s =
     (case appName of
        None \<Rightarrow> s
      | Some name \<Rightarrow>
          if \<not> truthy_str name \<or> \<not> appRef s then s
          else handleAppClick_settle parse outcome (handleAppClick_begin name s))"

definition handleBackToOverview :: "AppState \<Rightarrow> AppState" where
  "handleBackToOverview s = s\<lparr> selectedApp := None, appDetails := None \<rparr>"

subsection \<open>What the component shows\<close>

datatype View =
    LoadingSkeleton
  | ErrorCard string
  | NoDataCard
  | DetailSkeleton string
  | DetailPage string ApplicationDetails
  | DashboardPage DashboardData bool

definition ApplicationDetailView :: "string \<Rightarrow> ApplicationDetails option \<Rightarrow> bool \<Rightarrow> View" where
  "ApplicationDetailView appName details isLoading =
     (case details of
        None \<Rightarrow> DetailSkeleton appName
      | Some d \<Rightarrow> if isLoading then DetailSkeleton appName else DetailPage appName d)"

definition render :: "AppState \<Rightarrow> View" where
  "render s =
     (case data s of
        None \<Rightarrow>
          if loading s then LoadingSkeleton
          else (case error s of
                  None \<Rightarrow> NoDataCard
                | Some msg \<Rightarrow> if truthy_str msg then ErrorCard msg else NoDataCard)
      | Some d \<Rightarrow>
          (case selectedApp s of
             None \<Rightarrow> DashboardPage d (loading s)
           | Some appName \<Rightarrow>
               if truthy_str appName
               then ApplicationDetailView appName (appDetails s) (loadingDetails s)
               else DashboardPage d (loading s)))"

section \<open>Notions used in the statements\<close>







text \<open>
  The four predicate texts, by whether a sensor address and a sensor name are supplied.
\<close>

definition whereClauseText :: "bool \<Rightarrow> bool \<Rightarrow> string" where
  "whereClauseText with_ip with_name =
     ''WHERE timestamp >= now() - INTERVAL {filter_hours:UInt32} HOUR''
     @ (if with_ip then '' AND sensor_ip = {filter_sensor_ip:String}'' else [])
     @ (if with_name then '' AND sensor_name = {filter_sensor_name:String}'' else [])"

text \<open>The call of a tool has brought a parsed object.\<close>

definition call_succeeded :: "'a json_parse \<Rightarrow> call_outcome \<Rightarrow> bool" where
  "call_succeeded parse outcome =
     (case outcome of
        Resolved (Some (c # cs)) \<Rightarrow>
          (case parse (content_text c) of Inr (ParsedObject d) \<Rightarrow> True | _ \<Rightarrow> False)
      | _ \<Rightarrow> False)"

text \<open>The \<open>catch\<close> block of a handler is entered without the snapshot having been touched.\<close>

definition call_failed :: "'a json_parse \<Rightarrow> call_outcome \<Rightarrow> bool" where
  "call_failed parse outcome =
     (case outcome of
        Rejected e \<Rightarrow> True
      | Resolved (Some (c # cs)) \<Rightarrow> (case parse (content_text c) of Inl e \<Rightarrow> True | _ \<Rightarrow> False)
      | _ \<Rightarrow> False)"









section \<open>Example inputs\<close>

text \<open>A request without any filter field.\<close>

definition no_filters :: QueryFilters where
  "no_filters = \<lparr> hours = None, sensor_ip = None, sensor_name = None, limit = None \<rparr>"













text \<open>
  A client that is connected and holds a snapshot, with no error and no application
  selected; and a \<open>JSON.parse\<close> that raises on every text.
\<close>

definition snapshot0 :: DashboardData where
  "snapshot0 =
     \<lparr> healthOverview = emptyHealthOverview, topTalkers = [], trafficTimeline = [],
       filters = \<lparr> df_hours = Num 24, df_sensor_ip = None, df_sensor_name = None \<rparr>,
       generatedAt = ''2024-01-01T10:00:00.000Z'' \<rparr>"

definition ready_state :: AppState where
  "ready_state =
     \<lparr> data = Some snapshot0, loading = False, error = None, ui_hours = Num 24,
       autoRefresh = False, lastUpdated = Some ''2024-01-01T10:00:00.000Z'',
       selectedApp = None, appDetails = None, loadingDetails = False, appRef = True \<rparr>"

definition parse_fails :: "'a json_parse" where
  "parse_fails t = Inl (SyntaxError ''Unexpected token'')"

section \<open>Properties of the query builder\<close>

lemma collectConditions_eq:
  "collectConditions f =
     ([''timestamp >= now() - INTERVAL {filter_hours:UInt32} HOUR'']
        @ (if supplied (sensor_ip f) then [''sensor_ip = {filter_sensor_ip:String}''] else [])
        @ (if supplied (sensor_name f) then [''sensor_name = {filter_sensor_name:String}''] else []),
      (\<lambda>k. if k = ''filter_sensor_name'' \<and> supplied (sensor_name f)
             then map_option PStr (sensor_name f)
           else if k = ''filter_sensor_ip'' \<and> supplied (sensor_ip f)
             then map_option PStr (sensor_ip f)
           else if k = ''filter_hours'' then Some (PNum (num_or (hours f) (Num 24)))
           else None))"
  unfolding collectConditions_def supplied_def
  by (auto simp: Let_def fun_eq_iff split: option.splits)

lemma clause_eq:
  "clause (buildWhereClause f) = whereClauseText (supplied (sensor_ip f)) (supplied (sensor_name f))"
  unfolding buildWhereClause_def collectConditions_eq whereClauseText_def
  by simp

lemma params_eq:
  "params (buildWhereClause f) = snd (collectConditions f)"
  unfolding buildWhereClause_def by (simp add: case_prod_beta)

lemma whereClauseText_prefix:
  "\<exists>rest. whereClauseText a b
     = ''WHERE timestamp >= now() - INTERVAL {filter_hours:UInt32} HOUR'' @ rest"
  unfolding whereClauseText_def by blast

lemma request_texts:
  "fst (healthOverviewRequest f) = overallQuery (clause (buildWhereClause f))"
  "fst (snd (healthOverviewRequest f)) = appQuery (clause (buildWhereClause f))"
  "snd (snd (healthOverviewRequest f)) = params (buildWhereClause f)"
  "fst (topTalkersRequest f) = topTalkersQuery (clause (buildWhereClause f))"
  "snd (topTalkersRequest f)
     = (params (buildWhereClause f))(''query_limit'' \<mapsto> PNum (num_or (limit f) (Num 10)))"
  "fst (timelineRequest f) = timelineQuery (clause (buildWhereClause f))"
  "snd (timelineRequest f) = params (buildWhereClause f)"
  unfolding healthOverviewRequest_def topTalkersRequest_def timelineRequest_def
  by (simp_all add: Let_def)

text \<open>
  Claim C10. For every filter input the clause returned by \<open>buildWhereClause\<close> is not
  empty: the list of conditions is never empty and its first entry is the time-window
  predicate, so the clause starts with \<open>WHERE\<close> and that predicate, and the branch that
  returns the empty clause is never taken. The bound parameter \<open>filter_hours\<close> is the
  given number of hours, or 24 when the field is absent. Each of the four query texts
  contains the time-window predicate, so no query runs over the whole fact table.
\<close>

theorem buildWhereClause_time_window:
  "clause (buildWhereClause f) \<noteq> []
   \<and> fst (collectConditions f) \<noteq> []
   \<and> hd (fst (collectConditions f))
       = ''timestamp >= now() - INTERVAL {filter_hours:UInt32} HOUR''
   \<and> (\<exists>rest. clause (buildWhereClause f)
                = ''WHERE timestamp >= now() - INTERVAL {filter_hours:UInt32} HOUR'' @ rest)
   \<and> params (buildWhereClause f) ''filter_hours'' = Some (PNum (num_or (hours f) (Num 24)))
   \<and> params (buildWhereClause (f\<lparr> hours := None \<rparr>)) ''filter_hours'' = Some (PNum (Num 24))
   \<and> (\<exists>pre post. fst (healthOverviewRequest f)
         = pre @ ''WHERE timestamp >= now() - INTERVAL {filter_hours:UInt32} HOUR'' @ post)
   \<and> (\<exists>pre post. fst (snd (healthOverviewRequest f))
         = pre @ ''WHERE timestamp >= now() - INTERVAL {filter_hours:UInt32} HOUR'' @ post)
   \<and> (\<exists>pre post. fst (topTalkersRequest f)
         = pre @ ''WHERE timestamp >= now() - INTERVAL {filter_hours:UInt32} HOUR'' @ post)
   \<and> (\<exists>pre post. fst (timelineRequest f)
         = pre @ ''WHERE timestamp >= now() - INTERVAL {filter_hours:UInt32} HOUR'' @ post)"
proof -
  obtain rest where r: "clause (buildWhereClause f)
      = ''WHERE timestamp >= now() - INTERVAL {filter_hours:UInt32} HOUR'' @ rest"
    using whereClauseText_prefix clause_eq by metis
  have nonempty: "clause (buildWhereClause f) \<noteq> []"
    unfolding r by simp
  have conds: "fst (collectConditions f) \<noteq> []"
    "hd (fst (collectConditions f)) = ''timestamp >= now() - INTERVAL {filter_hours:UInt32} HOUR''"
    unfolding collectConditions_eq by simp_all
  have p1: "params (buildWhereClause f) ''filter_hours'' = Some (PNum (num_or (hours f) (Num 24)))"
    unfolding params_eq collectConditions_eq by simp
  have p2: "params (buildWhereClause (f\<lparr> hours := None \<rparr>)) ''filter_hours'' = Some (PNum (Num 24))"
    unfolding params_eq collectConditions_eq by (simp add: num_or_def)
  have q1: "\<exists>pre post. fst (healthOverviewRequest f)
                = pre @ ''WHERE timestamp >= now() - INTERVAL {filter_hours:UInt32} HOUR'' @ post"
    unfolding request_texts overallQuery_def r by (metis append.assoc)
  have q2: "\<exists>pre post. fst (snd (healthOverviewRequest f))
                = pre @ ''WHERE timestamp >= now() - INTERVAL {filter_hours:UInt32} HOUR'' @ post"
    unfolding request_texts appQuery_def r by (metis append.assoc)
  have q3: "\<exists>pre post. fst (topTalkersRequest f)
                = pre @ ''WHERE timestamp >= now() - INTERVAL {filter_hours:UInt32} HOUR'' @ post"
    unfolding request_texts topTalkersQuery_def r by (metis append.assoc)
  have q4: "\<exists>pre post. fst (timelineRequest f)
                = pre @ ''WHERE timestamp >= now() - INTERVAL {filter_hours:UInt32} HOUR'' @ post"
    unfolding request_texts timelineQuery_def r by (metis append.assoc)
  show ?thesis
    using nonempty conds r p1 p2 q1 q2 q3 q4 by blast
qed

text \<open>
  Claim C1, as amended. The predicate text of \<open>buildWhereClause\<close> and the texts of
  the four queries sent by \<open>getHealthOverview\<close>, \<open>getTopTalkers\<close> and
  \<open>getTrafficTimeline\<close> do not depend on the values in the filter: two filters that
  agree on which of the sensor address and the sensor name are supplied give the same
  texts, whatever their hours, limit and sensor values are. A field is supplied when the
  test \<open>if (filters.sensor_ip)\<close> of the code passes: it is present and is not the
  empty string. The text is one of four fixed texts, and each value travels only in the
  parameter table: \<open>filter_hours\<close>, \<open>filter_sensor_ip\<close>, \<open>filter_sensor_name\<close>
  and, for the top talkers, \<open>query_limit\<close>.
\<close>

theorem query_text_independent_of_values:
  assumes "supplied (sensor_ip f) = supplied (sensor_ip g)"
    and "supplied (sensor_name f) = supplied (sensor_name g)"
  shows "clause (buildWhereClause f) = clause (buildWhereClause g)
       \<and> fst (healthOverviewRequest f) = fst (healthOverviewRequest g)
       \<and> fst (snd (healthOverviewRequest f)) = fst (snd (healthOverviewRequest g))
       \<and> fst (topTalkersRequest f) = fst (topTalkersRequest g)
       \<and> fst (timelineRequest f) = fst (timelineRequest g)
       \<and> clause (buildWhereClause f)
           = whereClauseText (supplied (sensor_ip f)) (supplied (sensor_name f))
       \<and> params (buildWhereClause f) ''filter_hours'' = Some (PNum (num_or (hours f) (Num 24)))
       \<and> params (buildWhereClause f) ''filter_sensor_ip''
           = (if supplied (sensor_ip f) then map_option PStr (sensor_ip f) else None)
       \<and> params (buildWhereClause f) ''filter_sensor_name''
           = (if supplied (sensor_name f) then map_option PStr (sensor_name f) else None)
       \<and> snd (snd (healthOverviewRequest f)) = params (buildWhereClause f)
       \<and> snd (timelineRequest f) = params (buildWhereClause f)
       \<and> snd (topTalkersRequest f)
           = (params (buildWhereClause f))(''query_limit'' \<mapsto> PNum (num_or (limit f) (Num 10)))"
proof -
  have c: "clause (buildWhereClause f) = clause (buildWhereClause g)"
    unfolding clause_eq using assms by simp
  have p: "params (buildWhereClause f) ''filter_hours'' = Some (PNum (num_or (hours f) (Num 24)))"
    "params (buildWhereClause f) ''filter_sensor_ip''
           = (if supplied (sensor_ip f) then map_option PStr (sensor_ip f) else None)"
    "params (buildWhereClause f) ''filter_sensor_name''
           = (if supplied (sensor_name f) then map_option PStr (sensor_name f) else None)"
    unfolding params_eq collectConditions_eq by simp_all
  show ?thesis
    using c p clause_eq[of f] by (simp add: request_texts)
qed

theorem query_text_independent_of_values_witness:
  "supplied (sensor_ip \<lparr> hours = Some (Num 1), sensor_ip = Some ''10.0.0.1'',
                         sensor_name = None, limit = Some (Num 5) \<rparr>)
     = supplied (sensor_ip \<lparr> hours = None, sensor_ip = Some ''x OR 1=1'',
                             sensor_name = Some [], limit = None \<rparr>)
   \<and> supplied (sensor_name \<lparr> hours = Some (Num 1), sensor_ip = Some ''10.0.0.1'',
                             sensor_name = None, limit = Some (Num 5) \<rparr>)
     = supplied (sensor_name \<lparr> hours = None, sensor_ip = Some ''x OR 1=1'',
                               sensor_name = Some [], limit = None \<rparr>)
   \<and> clause (buildWhereClause \<lparr> hours = Some (Num 1), sensor_ip = Some ''10.0.0.1'',
                                 sensor_name = None, limit = Some (Num 5) \<rparr>)
     = clause (buildWhereClause \<lparr> hours = None, sensor_ip = Some ''x OR 1=1'',
                                   sensor_name = Some [], limit = None \<rparr>)
   \<and> fst (topTalkersRequest \<lparr> hours = Some (Num 1), sensor_ip = Some ''10.0.0.1'',
                               sensor_name = None, limit = Some (Num 5) \<rparr>)
     = fst (topTalkersRequest \<lparr> hours = None, sensor_ip = Some ''x OR 1=1'',
                                 sensor_name = Some [], limit = None \<rparr>)
   \<and> params (buildWhereClause \<lparr> hours = None, sensor_ip = Some ''x OR 1=1'',
                                 sensor_name = Some [], limit = None \<rparr>) ''filter_sensor_ip''
     = Some (PStr ''x OR 1=1'')"
  using query_text_independent_of_values
          [of "\<lparr> hours = Some (Num 1), sensor_ip = Some ''10.0.0.1'',
                  sensor_name = None, limit = Some (Num 5) \<rparr>"
              "\<lparr> hours = None, sensor_ip = Some ''x OR 1=1'',
                  sensor_name = Some [], limit = None \<rparr>"]
        query_text_independent_of_values
          [of "\<lparr> hours = None, sensor_ip = Some ''x OR 1=1'',
                  sensor_name = Some [], limit = None \<rparr>"
              "\<lparr> hours = None, sensor_ip = Some ''x OR 1=1'',
                  sensor_name = Some [], limit = None \<rparr>"]
  by (simp add: supplied_def truthy_str_def)

text \<open>
  The claim as first stated lets the text depend only on which fields are present. Two
  filters that both hold a sensor address, one of them the empty string, give different
  texts: the empty address adds no predicate.
\<close>

theorem query_text_presence_counterexample:
  "sensor_ip (no_filters\<lparr> sensor_ip := Some [] \<rparr>) \<noteq> None
   \<and> sensor_ip (no_filters\<lparr> sensor_ip := Some ''10.0.0.1'' \<rparr>) \<noteq> None
   \<and> clause (buildWhereClause (no_filters\<lparr> sensor_ip := Some [] \<rparr>))
       = ''WHERE timestamp >= now() - INTERVAL {filter_hours:UInt32} HOUR''
   \<and> clause (buildWhereClause (no_filters\<lparr> sensor_ip := Some ''10.0.0.1'' \<rparr>))
       = ''WHERE timestamp >= now() - INTERVAL {filter_hours:UInt32} HOUR AND sensor_ip = {filter_sensor_ip:String}''
   \<and> clause (buildWhereClause (no_filters\<lparr> sensor_ip := Some [] \<rparr>))
       \<noteq> clause (buildWhereClause (no_filters\<lparr> sensor_ip := Some ''10.0.0.1'' \<rparr>))"
  by (simp add: clause_eq whereClauseText_def no_filters_def supplied_def truthy_str_def)

section \<open>Properties of the query functions\<close>






subsection \<open>The error rate\<close>










subsection \<open>Rows are decoded one by one, in order\<close>


































subsection \<open>Decoding of numeric fields\<close>























section \<open>Properties of the dashboard client\<close>

lemma handleHoursChange_settle_failed:
  assumes "call_failed parse outcome"
  shows "data (handleHoursChange_settle parse outcome s) = data s"
    and "error (handleHoursChange_settle parse outcome s) = error s"
  using assms unfolding call_failed_def handleHoursChange_settle_def
  by (auto simp: Let_def split: call_outcome.splits option.splits list.splits sum.splits parsed.splits)

lemma refreshData_settle_failed:
  assumes "call_failed parse outcome"
  shows "data (refreshData_settle parse outcome s) = data s"
    and "error (refreshData_settle parse outcome s) = Some ''Failed to refresh data''"
  using assms unfolding call_failed_def refreshData_settle_def
  by (auto simp: Let_def split: call_outcome.splits option.splits list.splits sum.splits parsed.splits)

text \<open>
  Claim C8. The claim says that when a filter-change or refresh fetch fails, the snapshot
  held before is kept and the error flag is set beside it. The code keeps the snapshot
  in both handlers, but only \<open>refreshData\<close> sets the error flag: when the call of
  \<open>handleHoursChange\<close> is rejected or its text cannot be parsed, the error flag is left
  as it was, so after a failed change of the time range a state without error still
  has none. This holds for one run of the handler and for its second step taken from
  any state.
\<close>

theorem filter_change_failure_sets_no_error:
  assumes "appRef s" and "call_failed parse outcome"
  shows "data (handleHoursChange parse newHours outcome s) = data s
       \<and> error (handleHoursChange parse newHours outcome s) = error s
       \<and> data (handleHoursChange_settle parse outcome s) = data s
       \<and> error (handleHoursChange_settle parse outcome s) = error s
       \<and> data (refreshData parse outcome s) = data s
       \<and> error (refreshData parse outcome s) = Some ''Failed to refresh data''
       \<and> data (refreshData_settle parse outcome s) = data s
       \<and> error (refreshData_settle parse outcome s) = Some ''Failed to refresh data''"
  using assms
  by (simp add: handleHoursChange_def refreshData_def handleHoursChange_settle_failed
        refreshData_settle_failed handleHoursChange_begin_def refreshData_begin_def)

theorem filter_change_failure_sets_no_error_witness:
  "appRef ready_state
   \<and> call_failed (parse_fails :: DashboardData json_parse) (Rejected (StoreError ''Request timed out''))
   \<and> data (handleHoursChange parse_fails ''6'' (Rejected (StoreError ''Request timed out'')) ready_state)
       = Some snapshot0
   \<and> error (handleHoursChange parse_fails ''6'' (Rejected (StoreError ''Request timed out'')) ready_state)
       = None
   \<and> error (refreshData parse_fails (Rejected (StoreError ''Request timed out'')) ready_state)
       = Some ''Failed to refresh data''"
  using filter_change_failure_sets_no_error
          [of ready_state parse_fails "Rejected (StoreError ''Request timed out'')" "''6''"]
  by (simp add: ready_state_def call_failed_def)

lemma handleAppClick_settle_not_succeeded:
  assumes "\<not> call_succeeded parse outcome" and "appDetails s = None"
  shows "appDetails (handleAppClick_settle parse outcome s) = None"
    and "error (handleAppClick_settle parse outcome s) = error s"
    and "data (handleAppClick_settle parse outcome s) = data s"
    and "selectedApp (handleAppClick_settle parse outcome s) = selectedApp s"
  using assms unfolding call_succeeded_def handleAppClick_settle_def
  by (auto simp: Let_def split: call_outcome.splits option.splits list.splits sum.splits parsed.splits)

text \<open>
  Claim C4. The claim says that a drilldown fetch that fails is shown to the user as an
  explicit error. In the code, when the call of \<open>handleAppClick\<close> does not bring a
  parsed object (it is rejected, its content is missing or empty, its text cannot be
  parsed or is \<open>null\<close>), the component shows the placeholder of the detail view, the
  one it shows while loading; the error flag is left as it was and no detail is held.
\<close>

theorem drilldown_failure_shows_placeholder:
  assumes "appRef s" and "truthy_str name" and "data s = Some d"
    and "\<not> call_succeeded parse outcome"
  shows "render (handleAppClick parse (Some name) outcome s) = DetailSkeleton name
       \<and> error (handleAppClick parse (Some name) outcome s) = error s
       \<and> appDetails (handleAppClick parse (Some name) outcome s) = None"
proof -
  let ?b = "handleAppClick_begin name s"
  have b: "appDetails ?b = None" "data ?b = Some d" "selectedApp ?b = Some name" "error ?b = error s"
    using assms(3) by (simp_all add: handleAppClick_begin_def)
  have h: "handleAppClick parse (Some name) outcome s = handleAppClick_settle parse outcome ?b"
    using assms(1,2) by (simp add: handleAppClick_def)
  have "render (handleAppClick_settle parse outcome ?b) = DetailSkeleton name"
    using handleAppClick_settle_not_succeeded[OF assms(4) b(1)] b assms(2)
    by (simp add: render_def ApplicationDetailView_def)
  then show ?thesis
    using handleAppClick_settle_not_succeeded[OF assms(4) b(1)] b h by simp
qed

theorem drilldown_failure_shows_placeholder_witness:
  "appRef ready_state \<and> truthy_str ''web'' \<and> data ready_state = Some snapshot0
   \<and> \<not> call_succeeded (parse_fails :: ApplicationDetails json_parse)
          (Rejected (StoreError ''Tool get_application_details_tool not found''))
   \<and> render (handleAppClick parse_fails (Some ''web'')
                (Rejected (StoreError ''Tool get_application_details_tool not found'')) ready_state)
       = DetailSkeleton ''web''
   \<and> error (handleAppClick parse_fails (Some ''web'')
                (Rejected (StoreError ''Tool get_application_details_tool not found'')) ready_state)
       = None"
  using drilldown_failure_shows_placeholder
          [of ready_state "''web''" snapshot0 parse_fails
              "Rejected (StoreError ''Tool get_application_details_tool not found'')"]
  by (simp add: ready_state_def call_succeeded_def truthy_str_def)

end
